theory Spec2Isabelle
  imports Complex_Main
begin

section \<open>Python values used by \<open>scripts/plot-spectrogram.py\<close>\<close>

text \<open>
  A Python \<open>float\<close> (and a numpy \<open>float64\<close>) is an IEEE-754 binary64 value. A finite
  value is kept as its sign and its exact magnitude, a non-negative rational that is
  representable in binary64; \<open>F64 True 0\<close> is the negative zero. The payload and the
  sign of a NaN are not observable in this program and are left out.
\<close>

datatype float64 = F64 bool rat | F64_inf bool | F64_nan

text \<open>\<open>argparse\<close> leaves the integer defaults \<open>-80\<close> and \<open>-30\<close> of \<open>--vmin\<close> and
  \<open>--vmax\<close> as Python ints and converts a value given on the command line to a float.\<close>

datatype pynum = Py_int int | Py_float float64

text \<open>The exceptions a run can end with: those the script raises itself, and any other
  class, by its name, for what a matplotlib call raises.\<close>

datatype exn = ValueError | IndexError | OSError | Other_exception string

subsection \<open>Rounding to binary64\<close>

function bit_length :: "int \<Rightarrow> int" where
  "bit_length n = (if n \<le> 0 then 0 else 1 + bit_length (n div 2))"
  by pat_completeness auto
termination
  by (relation "measure nat") auto

definition pow2 :: "int \<Rightarrow> rat" where
  "pow2 k = (if 0 \<le> k then 2 ^ nat k else 1 / 2 ^ nat (- k))"

definition pow10 :: "int \<Rightarrow> rat" where
  "pow10 k = (if 0 \<le> k then 10 ^ nat k else 1 / 10 ^ nat (- k))"

text \<open>For \<open>0 < a\<close>, the integer \<open>e\<close> with \<open>2 ^ e \<le> a < 2 ^ (e + 1)\<close>.\<close>

definition floor_log2 :: "rat \<Rightarrow> int" where
  "floor_log2 a =
     (let e = bit_length (fst (quotient_of a)) - bit_length (snd (quotient_of a))
      in if pow2 e \<le> a then e else e - 1)"

definition round_half_even :: "rat \<Rightarrow> int" where
  "round_half_even x =
     (let f = \<lfloor>x\<rfloor>; r = x - of_int f
      in if r < 1 / 2 then f
         else if 1 / 2 < r then f + 1
         else if even f then f else f + 1)"

text \<open>
  The binary64 value nearest to the magnitude \<open>a \<ge> 0\<close> with sign \<open>s\<close>, ties to even:
  53 significant bits, the least exponent \<open>-1022\<close> (below it the spacing stays
  \<open>2 ^ -1074\<close>, the subnormal numbers), and infinity from \<open>2 ^ 1024\<close> on.
\<close>

definition round_f64 :: "bool \<Rightarrow> rat \<Rightarrow> float64" where
  "round_f64 s a =
     (if a = 0 then F64 s 0
      else let e = floor_log2 a in
        if 1023 < e then F64_inf s
        else let k = max e (- 1022) - 52;
                 m = round_half_even (a / pow2 k)
             in if e = 1023 \<and> m = 2 ^ 53 then F64_inf s
                else F64 s (of_int m * pow2 k))"

text \<open>Conversion of an integer to binary64, as numpy's cast of an \<open>int64\<close> does.\<close>

definition f64_of_int :: "int \<Rightarrow> float64" where
  "f64_of_int i = round_f64 (i < 0) (of_int \<bar>i\<bar>)"

text \<open>IEEE-754 division, as numpy's \<open>true_divide\<close> on \<open>float64\<close>.\<close>

fun f64_div :: "float64 \<Rightarrow> float64 \<Rightarrow> float64" where
  "f64_div F64_nan y = F64_nan"
| "f64_div x F64_nan = F64_nan"
| "f64_div (F64_inf s) (F64_inf t) = F64_nan"
| "f64_div (F64_inf s) (F64 t n) = F64_inf (s \<noteq> t)"
| "f64_div (F64 s m) (F64_inf t) = F64 (s \<noteq> t) 0"
| "f64_div (F64 s m) (F64 t n) =
     (if n = 0 then (if m = 0 then F64_nan else F64_inf (s \<noteq> t))
      else round_f64 (s \<noteq> t) (m / n))"

subsection \<open>Strings\<close>

definition LF :: char where "LF = CHR 0x0A"
definition CR :: char where "CR = CHR 0x0D"

text \<open>
  A \<open>char\<close> of a Python string is its code point; the strings of this theory are those
  whose code points are below 256.

  The characters for which \<open>str.isspace\<close> holds, which \<open>str.strip()\<close> drops at both
  ends: tab to carriage return, the four separators U+001C to U+001F, the space, and
  beyond ASCII the next line U+0085 and the no-break space U+00A0.
\<close>

definition isspace :: "char \<Rightarrow> bool" where
  "isspace c = (c \<in> set [CHR 0x09, CHR 0x0A, CHR 0x0B, CHR 0x0C, CHR 0x0D,
                          CHR 0x1C, CHR 0x1D, CHR 0x1E, CHR 0x1F, CHR 0x20,
                          CHR 0x85, CHR 0xA0])"

definition strip :: "string \<Rightarrow> string" where
  "strip s = rev (dropWhile isspace (rev (dropWhile isspace s)))"

text \<open>
  \<open>int()\<close> and \<open>float()\<close> read their argument in two steps. A character beyond ASCII
  for which \<open>str.isspace\<close> holds becomes a space (no character below 256 beyond ASCII is
  a decimal digit, so every other one stays and makes the text invalid). Then the
  whitespace of C is dropped at both ends: tab to carriage return and the space, but
  not U+001C to U+001F.
\<close>

definition ascii_space :: "char \<Rightarrow> char" where
  "ascii_space c = (if c = CHR 0x85 \<or> c = CHR 0xA0 then CHR 0x20 else c)"

definition c_isspace :: "char \<Rightarrow> bool" where
  "c_isspace c = (c \<in> set [CHR 0x09, CHR 0x0A, CHR 0x0B, CHR 0x0C, CHR 0x0D, CHR 0x20])"

definition number_text :: "string \<Rightarrow> string" where
  "number_text s =
     rev (dropWhile c_isspace (rev (dropWhile c_isspace (map ascii_space s))))"

text \<open>\<open>s.split(sep)\<close> for a one-character separator: never the empty list.\<close>

fun split :: "char \<Rightarrow> string \<Rightarrow> string list" where
  "split sep [] = [[]]"
| "split sep (c # cs) =
     (let fields = split sep cs in
      if c = sep then [] # fields else (c # hd fields) # tl fields)"

definition isdigit :: "char \<Rightarrow> bool" where
  "isdigit c = (c \<in> set ''0123456789'')"

definition digit_val :: "char \<Rightarrow> int" where
  "digit_val c = int (length (takeWhile (\<lambda>d. d \<noteq> c) ''0123456789''))"

definition digits_val :: "string \<Rightarrow> int" where
  "digits_val ds = foldl (\<lambda>a c. 10 * a + digit_val c) 0 ds"

text \<open>
  A run of decimal digits in which single underscores may stand between two digits
  (PEP 515): the digits read, without the underscores, and the rest of the string.
\<close>

fun digit_run :: "string \<Rightarrow> string \<times> string" where
  "digit_run [] = ([], [])"
| "digit_run [c] = (if isdigit c then ([c], []) else ([], [c]))"
| "digit_run (c # d # cs) =
     (if isdigit c then (case digit_run (d # cs) of (ds, r) \<Rightarrow> (c # ds, r))
      else if c = CHR ''_'' \<and> isdigit d then digit_run (d # cs)
      else ([], c # d # cs))"

definition digitpart :: "string \<Rightarrow> (string \<times> string) option" where
  "digitpart s =
     (case s of [] \<Rightarrow> None
      | c # cs \<Rightarrow> if isdigit c then Some (digit_run s) else None)"

text \<open>An optional sign: whether it is a minus, and the rest.\<close>

definition sign_of :: "string \<Rightarrow> bool \<times> string" where
  "sign_of s =
     (case s of [] \<Rightarrow> (False, [])
      | c # cs \<Rightarrow> if c = CHR ''-'' then (True, cs)
                  else if c = CHR ''+'' then (False, cs) else (False, s))"

text \<open>
  \<open>int(s)\<close> in base 10: surrounding whitespace, an optional sign, one digit run and
  nothing else; \<open>ValueError\<close> otherwise, and (CPython 3.11 and later, with the default
  \<open>sys.get_int_max_str_digits()\<close>) for more than 4300 digits.
\<close>

definition py_int :: "string \<Rightarrow> exn + int" where
  "py_int s =
     (let (neg, body) = sign_of (number_text s) in
      case digitpart body of
        Some (ds, []) \<Rightarrow>
          if 4300 < length ds then Inl ValueError
          else Inr (if neg then - digits_val ds else digits_val ds)
      | _ \<Rightarrow> Inl ValueError)"

definition lower :: "char \<Rightarrow> char" where
  "lower c =
     (case map_of (zip ''ABCDEFGHIJKLMNOPQRSTUVWXYZ'' ''abcdefghijklmnopqrstuvwxyz'') c of
        Some l \<Rightarrow> l | None \<Rightarrow> c)"

text \<open>The exponent of a float literal: empty, or \<open>e\<close>/\<open>E\<close>, an optional sign and one
  digit run up to the end of the string.\<close>

definition exponent :: "string \<Rightarrow> int option" where
  "exponent r =
     (case r of [] \<Rightarrow> Some 0
      | c # cs \<Rightarrow>
          if c = CHR ''e'' \<or> c = CHR ''E'' then
            (let (neg, body) = sign_of cs in
             case digitpart body of
               Some (ds, []) \<Rightarrow> Some (if neg then - digits_val ds else digits_val ds)
             | _ \<Rightarrow> None)
          else None)"

text \<open>The value of the decimal literal with integer digits \<open>ip\<close>, fraction digits
  \<open>fp\<close> and the exponent part \<open>r\<close>.\<close>

definition decimal :: "bool \<Rightarrow> string \<Rightarrow> string \<Rightarrow> string \<Rightarrow> exn + float64" where
  "decimal neg ip fp r =
     (case exponent r of
        None \<Rightarrow> Inl ValueError
      | Some ex \<Rightarrow>
          Inr (round_f64 neg (of_int (digits_val (ip @ fp)) * pow10 (ex - int (length fp)))))"

text \<open>
  \<open>float(s)\<close>: surrounding whitespace, an optional sign, then \<open>inf\<close>, \<open>infinity\<close> or
  \<open>nan\<close> in any case, or a decimal literal with at least one digit before or after the
  point; the result is the nearest binary64 value. \<open>ValueError\<close> otherwise.
\<close>

definition py_float :: "string \<Rightarrow> exn + float64" where
  "py_float s =
     (let (neg, body) = sign_of (number_text s); low = map lower body in
      if low = ''inf'' \<or> low = ''infinity'' then Inr (F64_inf neg)
      else if low = ''nan'' then Inr F64_nan
      else case digitpart body of
        Some (ip, r1) \<Rightarrow>
          (case r1 of
             [] \<Rightarrow> decimal neg ip [] []
           | c # r2 \<Rightarrow>
               if c = CHR ''.'' then
                 (case digitpart r2 of
                    Some (fp, r3) \<Rightarrow> decimal neg ip fp r3
                  | None \<Rightarrow> decimal neg ip [] r2)
               else decimal neg ip [] r1)
      | None \<Rightarrow>
          (case body of
             [] \<Rightarrow> Inl ValueError
           | c # r2 \<Rightarrow>
               if c = CHR ''.'' then
                 (case digitpart r2 of
                    Some (fp, r3) \<Rightarrow> decimal neg [] fp r3
                  | None \<Rightarrow> Inl ValueError)
               else Inl ValueError))"

subsection \<open>Formatting\<close>

text \<open>The decimal digits of a non-negative integer, as \<open>str\<close> and an f-string print it.\<close>

function show_nat :: "int \<Rightarrow> string" where
  "show_nat n =
     (if n < 10 then [''0123456789'' ! nat n]
      else show_nat (n div 10) @ [''0123456789'' ! nat (n mod 10)])"
  by pat_completeness auto
termination
  by (relation "measure nat") auto

text \<open>
  The format specification \<open>.pf\<close> for \<open>0 < p\<close>: the value rounded to \<open>p\<close> decimal places
  (correctly, from the exact binary value, ties to even), the sign kept also when the
  digits are all zero.
\<close>

definition fmt_fixed :: "nat \<Rightarrow> float64 \<Rightarrow> string" where
  "fmt_fixed p x =
     (case x of
        F64_nan \<Rightarrow> ''nan''
      | F64_inf s \<Rightarrow> (if s then ''-inf'' else ''inf'')
      | F64 s m \<Rightarrow>
          (let n = round_half_even (m * 10 ^ p);
               fp = show_nat (n mod 10 ^ p)
           in (if s then ''-'' else '''') @ show_nat (n div 10 ^ p) @ ''.'' @
              replicate (p - length fp) (CHR ''0'') @ fp))"

section \<open>The program\<close>

text \<open>
  The namespace \<open>parser.parse_args()\<close> returns (lines 15 to 21); \<open>output_path\<close> is
  \<open>args.output\<close>, \<open>None\<close> when \<open>-o\<close> is not given. A run starts after \<open>parse_args\<close> has
  returned: a usage error ends the process inside \<open>argparse\<close>, before any line below.
\<close>

record args =
  csvfile :: string
  output_path :: "string option"
  cmap :: string
  vmin :: pynum
  vmax :: pynum

text \<open>
  What a run does, in order: the lines printed to standard output and to standard
  error, the call of \<open>open\<close>, and the calls into matplotlib with their arguments. A call
  is an event from the moment it is made, whether it returns or raises.
\<close>

datatype event =
    Stdout string
  | Stderr string
  | Open_file string
  | Subplots nat nat
  | Imshow "float64 list list" "float64 list" string string pynum pynum string
  | Set_xlabel string
  | Set_ylabel string
  | Set_title string
  | Colorbar string
  | Tight_layout
  | Savefig string nat
  | Show

text \<open>
  What a run depends on besides its arguments: whether \<open>import matplotlib.pyplot\<close>
  succeeds; the files that can be opened and read as text, each with the text the reads
  deliver; for the other paths the exception that \<open>open\<close> raises (\<open>OSError\<close>: no such
  file) or that the reads raise (\<open>ValueError\<close>: bytes that do not decode); and for
  every call into matplotlib whether it raises, and what (an unknown colormap in
  \<open>imshow\<close>, a directory that does not exist in \<open>savefig\<close>, no display for \<open>show\<close>).
\<close>

record env =
  mpl_available :: bool
  files :: "string \<Rightarrow> string option"
  read_error :: "string \<Rightarrow> exn"
  mpl_raises :: "event \<Rightarrow> exn option"

text \<open>
  For timestamps outside the signed 64-bit range \<open>np.array\<close> chooses another element
  type, by rules of numpy that are not part of this program; the embedding stops there
  and says so.
\<close>

datatype limit = Timestamp_not_int64

text \<open>
  How a run ends: \<open>main\<close> returns (exit status 0), \<open>sys.exit(n)\<close>, or an exception
  nobody catches (the interpreter prints the traceback to standard error and the exit
  status is 1).
\<close>

datatype outcome = Completed | Sys_exit nat | Uncaught exn | Unmodelled limit

definition exit_status :: "outcome \<Rightarrow> nat option" where
  "exit_status out =
     (case out of Completed \<Rightarrow> Some 0 | Sys_exit n \<Rightarrow> Some n
      | Uncaught x \<Rightarrow> Some 1 | Unmodelled l \<Rightarrow> None)"

definition after :: "event list \<Rightarrow> event list \<times> outcome \<Rightarrow> event list \<times> outcome" where
  "after evs r = (evs @ fst r, snd r)"

text \<open>A call into matplotlib and what follows it: when the call raises, the run ends
  there and nothing follows.\<close>

definition call :: "env \<Rightarrow> event \<Rightarrow> event list \<times> outcome \<Rightarrow> event list \<times> outcome" where
  "call e ev rest =
     (case mpl_raises e ev of
        Some err \<Rightarrow> ([ev], Uncaught err)
      | None \<Rightarrow> after [ev] rest)"

subsection \<open>Reading the file (lines 32 to 34)\<close>

text \<open>Text mode with the default \<open>newline=None\<close>: \<open>\r\n\<close> and \<open>\r\<close> are read as \<open>\n\<close>.\<close>

fun universal_newlines :: "string \<Rightarrow> string" where
  "universal_newlines [] = []"
| "universal_newlines [c] = [if c = CR then LF else c]"
| "universal_newlines (c # d # cs) =
     (if c = CR \<and> d = LF then LF # universal_newlines cs
      else if c = CR then LF # universal_newlines (d # cs)
      else c # universal_newlines (d # cs))"

text \<open>The lines of a text, each with its newline; \<open>cur\<close> is the line being read,
  reversed.\<close>

fun lines_from :: "string \<Rightarrow> string \<Rightarrow> string list" where
  "lines_from cur [] = (if cur = [] then [] else [rev cur])"
| "lines_from cur (c # cs) =
     (if c = LF then rev (c # cur) # lines_from [] cs else lines_from (c # cur) cs)"

text \<open>\<open>header = f.readline().strip()\<close> (the empty string at the end of the file) and
  \<open>lines = f.readlines()\<close>.\<close>

definition read_csv :: "string \<Rightarrow> string \<times> string list" where
  "read_csv txt =
     (case lines_from [] (universal_newlines txt) of
        [] \<Rightarrow> ([], [])
      | l # ls \<Rightarrow> (strip l, ls))"

subsection \<open>Parsing (lines 37 to 48)\<close>

text \<open>\<open>[float(x) for x in xs]\<close>: the first field that is no float raises.\<close>

fun floats :: "string list \<Rightarrow> exn + float64 list" where
  "floats [] = Inr []"
| "floats (x # xs) =
     (case py_float x of
        Inl err \<Rightarrow> Inl err
      | Inr v \<Rightarrow> (case floats xs of Inl err \<Rightarrow> Inl err | Inr vs \<Rightarrow> Inr (v # vs)))"

definition parse_header :: "string \<Rightarrow> exn + float64 list" where
  "parse_header header = floats (drop 1 (split (CHR '','') header))"

text \<open>The loop of lines 43 to 48, with the two lists it appends to.\<close>

fun parse_rows ::
  "string list \<Rightarrow> int list \<Rightarrow> float64 list list \<Rightarrow> exn + (int list \<times> float64 list list)"
where
  "parse_rows [] timestamps rssi_data = Inr (timestamps, rssi_data)"
| "parse_rows (line # lines) timestamps rssi_data =
     (let parts = split (CHR '','') (strip line) in
      if length parts < 2 then parse_rows lines timestamps rssi_data
      else case py_int (hd parts) of
        Inl err \<Rightarrow> Inl err
      | Inr t \<Rightarrow>
          (case floats (tl parts) of
             Inl err \<Rightarrow> Inl err
           | Inr r \<Rightarrow> parse_rows lines (timestamps @ [t]) (rssi_data @ [r])))"

subsection \<open>The arrays (lines 55 to 61)\<close>

text \<open>\<open>np.array(rssi_data)\<close> (numpy 1.24 and later) raises \<open>ValueError\<close> unless the rows
  have one length.\<close>

definition rectangular :: "'a list list \<Rightarrow> bool" where
  "rectangular rows = list_all (\<lambda>r. length r = length (hd rows)) rows"

definition in_int64 :: "int \<Rightarrow> bool" where
  "in_int64 t = (- (2 ^ 63) \<le> t \<and> t < 2 ^ 63)"

text \<open>Subtraction of \<open>int64\<close> values: numpy wraps around silently.\<close>

definition int64_sub :: "int \<Rightarrow> int \<Rightarrow> int" where
  "int64_sub a b = (a - b + 2 ^ 63) mod 2 ^ 64 - 2 ^ 63"

text \<open>\<open>(timestamps - t_start) / 1000.0\<close> for \<open>t_start = timestamps[0]\<close>.\<close>

definition time_sec :: "int list \<Rightarrow> int \<Rightarrow> float64 list" where
  "time_sec timestamps t_start =
     map (\<lambda>t. f64_div (f64_of_int (int64_sub t t_start)) (F64 False 1000)) timestamps"

subsection \<open>The figure (lines 68 to 89)\<close>

text \<open>Lines 85 to 89. \<open>if args.output:\<close> holds for a string that is not empty; the
  confirmation is printed when \<open>savefig\<close> has returned.\<close>

definition save_or_show :: "env \<Rightarrow> args \<Rightarrow> event list \<times> outcome" where
  "save_or_show e a =
     (case output_path a of
        None \<Rightarrow> call e Show ([], Completed)
      | Some path \<Rightarrow>
          if path \<noteq> [] then
            call e (Savefig path 150) ([Stdout (''Saved to '' @ path)], Completed)
          else call e Show ([], Completed))"

text \<open>Lines 68 to 89, one call after the other. Called with \<open>freqs\<close> and \<open>ts\<close> not empty
  only (line 64 and line 60 have indexed them before).\<close>

definition plot ::
  "env \<Rightarrow> args \<Rightarrow> float64 list \<Rightarrow> float64 list \<Rightarrow> float64 list list \<Rightarrow> event list \<times> outcome"
where
  "plot e a freqs ts rssi_matrix =
     call e (Subplots 12 6)
    (call e (Imshow rssi_matrix [hd freqs, last freqs, last ts, hd ts] ''auto''
               (cmap a) (vmin a) (vmax a) ''nearest'')
    (call e (Set_xlabel ''Frequency (MHz)'')
    (call e (Set_ylabel ''Time (seconds)'')
    (call e (Set_title (''RF Spectrogram - '' @ csvfile a))
    (call e (Colorbar ''RSSI (dBm)'')
    (call e Tight_layout
    (save_or_show e a)))))))"

subsection \<open>\<open>main\<close>\<close>

text \<open>Lines 59 to 89: the relative times, the three lines of the summary and the
  figure. Indexing an empty array raises \<open>IndexError\<close>.\<close>

definition report ::
  "env \<Rightarrow> args \<Rightarrow> float64 list \<Rightarrow> int list \<Rightarrow> float64 list list \<Rightarrow> event list \<times> outcome"
where
  "report e a freqs timestamps rssi_matrix =
     (case timestamps of
        [] \<Rightarrow> ([], Uncaught IndexError)
      | t_start # _ \<Rightarrow>
          after [Stdout (''Loaded '' @ show_nat (int (length timestamps)) @ '' frames, '' @
                         show_nat (int (length freqs)) @ '' frequency bins'')]
            (if freqs = [] then ([], Uncaught IndexError)
             else
               after
                 [Stdout (''Frequency range: '' @ fmt_fixed 3 (hd freqs) @ '' - '' @
                          fmt_fixed 3 (last freqs) @ '' MHz''),
                  Stdout (''Duration: '' @ fmt_fixed 2 (last (time_sec timestamps t_start)) @
                          '' seconds'')]
                 (plot e a freqs (time_sec timestamps t_start) rssi_matrix)))"

text \<open>Lines 37 to 57, on the header and the lines read from the file.\<close>

definition process :: "env \<Rightarrow> args \<Rightarrow> string \<Rightarrow> string list \<Rightarrow> event list \<times> outcome" where
  "process e a header lines =
     (case parse_header header of
        Inl err \<Rightarrow> ([], Uncaught err)
      | Inr freqs \<Rightarrow>
          (case parse_rows lines [] [] of
             Inl err \<Rightarrow> ([], Uncaught err)
           | Inr (timestamps, rssi_data) \<Rightarrow>
               if rssi_data = [] then
                 ([Stderr ''Error: No data rows found in CSV''], Sys_exit 1)
               else if \<not> rectangular rssi_data then ([], Uncaught ValueError)
               else if \<not> list_all in_int64 timestamps then ([], Unmodelled Timestamp_not_int64)
               else report e a freqs timestamps rssi_data))"

definition main :: "args \<Rightarrow> env \<Rightarrow> event list \<times> outcome" where
  "main a e =
     (if \<not> mpl_available e then
        ([Stderr ''Error: matplotlib not installed. Install with: pip install matplotlib''],
         Sys_exit 1)
      else
        after [Stdout (''Reading '' @ csvfile a @ ''...''), Open_file (csvfile a)]
          (case files e (csvfile a) of
             None \<Rightarrow> ([], Uncaught (read_error e (csvfile a)))
           | Some txt \<Rightarrow> process e a (fst (read_csv txt)) (snd (read_csv txt))))"

section \<open>Readings of the specification and example inputs\<close>

text \<open>The lines a run prints to standard output, in order.\<close>

fun stdout_of :: "event list \<Rightarrow> string list" where
  "stdout_of [] = []"
| "stdout_of (ev # evs) =
     (case ev of Stdout s \<Rightarrow> s # stdout_of evs | _ \<Rightarrow> stdout_of evs)"

text \<open>The calls of lines 68 to 83 in their order, and the events of lines 85 to 89 when
  the call made there returns.\<close>

definition figure_calls ::
  "args \<Rightarrow> float64 list \<Rightarrow> float64 list \<Rightarrow> float64 list list \<Rightarrow> event list" where
  "figure_calls a freqs ts rssi_matrix =
     [Subplots 12 6,
      Imshow rssi_matrix [hd freqs, last freqs, last ts, hd ts] ''auto''
        (cmap a) (vmin a) (vmax a) ''nearest'',
      Set_xlabel ''Frequency (MHz)'',
      Set_ylabel ''Time (seconds)'',
      Set_title (''RF Spectrogram - '' @ csvfile a),
      Colorbar ''RSSI (dBm)'',
      Tight_layout]"

definition closing_events :: "args \<Rightarrow> event list" where
  "closing_events a =
     (case output_path a of
        None \<Rightarrow> [Show]
      | Some path \<Rightarrow>
          if path \<noteq> [] then [Savefig path 150, Stdout (''Saved to '' @ path)] else [Show])"

text \<open>
  The relative time axis as the specification words it: each timestamp minus the first
  timestamp, as integers, converted to a float and divided by 1000.
\<close>

definition spec_relative_time :: "int list \<Rightarrow> float64 list" where
  "spec_relative_time ts =
     map (\<lambda>t. f64_div (f64_of_int (t - hd ts)) (F64 False 1000)) ts"

text \<open>The order of float values (\<open><\<close> is false when a NaN is involved), and the least
  and the greatest element of a list that is not empty.\<close>

fun f64_lt :: "float64 \<Rightarrow> float64 \<Rightarrow> bool" where
  "f64_lt F64_nan y = False"
| "f64_lt x F64_nan = False"
| "f64_lt (F64_inf s) (F64_inf t) = (s \<and> \<not> t)"
| "f64_lt (F64_inf s) (F64 t n) = s"
| "f64_lt (F64 s m) (F64_inf t) = (\<not> t)"
| "f64_lt (F64 s m) (F64 t n) = ((if s then - m else m) < (if t then - n else n))"

definition f64_min :: "float64 list \<Rightarrow> float64" where
  "f64_min xs = foldl (\<lambda>m x. if f64_lt x m then x else m) (hd xs) (tl xs)"

definition f64_max :: "float64 list \<Rightarrow> float64" where
  "f64_max xs = foldl (\<lambda>m x. if f64_lt m x then x else m) (hd xs) (tl xs)"

text \<open>The second line of the summary as the specification words it: the minimum and
  the maximum frequency, to three decimal places.\<close>

definition spec_frequency_range :: "float64 list \<Rightarrow> string" where
  "spec_frequency_range freqs =
     ''Frequency range: '' @ fmt_fixed 3 (f64_min freqs) @ '' - '' @
     fmt_fixed 3 (f64_max freqs) @ '' MHz''"

text \<open>The example of the specification: three frequencies, two rows one second apart.\<close>

definition sample_csv :: string where
  "sample_csv = ''t,1.0,2.0,3.0\<newline>0,-50,-60,-70\<newline>1000,-55,-65,-75\<newline>''"

definition sample_matrix :: "float64 list list" where
  "sample_matrix =
     [[F64 True 50, F64 True 60, F64 True 70], [F64 True 55, F64 True 65, F64 True 75]]"

definition sample_args :: "string option \<Rightarrow> args" where
  "sample_args out =
     \<lparr>csvfile = ''spectrum.csv'', output_path = out, cmap = ''viridis'',
      vmin = Py_int (- 80), vmax = Py_int (- 30)\<rparr>"

text \<open>An environment with matplotlib in which every path opens the given text and no
  call into matplotlib raises, and one in which \<open>savefig\<close> raises.\<close>

definition env_with :: "string \<Rightarrow> env" where
  "env_with txt =
     \<lparr>mpl_available = True, files = (\<lambda>p. Some txt), read_error = (\<lambda>p. OSError),
      mpl_raises = (\<lambda>ev. None)\<rparr>"

definition env_savefig_fails :: "string \<Rightarrow> env" where
  "env_savefig_fails txt =
     \<lparr>mpl_available = True, files = (\<lambda>p. Some txt), read_error = (\<lambda>p. OSError),
      mpl_raises = (\<lambda>ev. case ev of Savefig p d \<Rightarrow> Some OSError | _ \<Rightarrow> None)\<rparr>"

text \<open>A file with the header alone, a header whose frequencies fall, a header without
  frequencies (with one row, and with two rows of different lengths), and timestamps at
  the two ends of the signed 64-bit range.\<close>

definition header_only_csv :: string where
  "header_only_csv = ''t,1.0,2.0,3.0\<newline>''"

definition falling_csv :: string where
  "falling_csv = ''t,2.0,1.0\<newline>0,-50,-60\<newline>''"

definition bare_header_csv :: string where
  "bare_header_csv = ''t\<newline>0,-50\<newline>''"

definition ragged_csv :: string where
  "ragged_csv = ''t\<newline>0,-50\<newline>1,-50,-60\<newline>''"

definition wrap_csv :: string where
  "wrap_csv = ''t,1.0\<newline>-9223372036854775808,-50\<newline>1,-50\<newline>''"

section \<open>Facts about the parts\<close>

declare show_nat.simps [simp del] bit_length.simps [simp del]

lemma split_no_sep: "sep \<notin> set s \<Longrightarrow> split sep s = [s]"
  by (induction s) (auto simp: Let_def)

lemma parse_header_no_comma: "CHR '','' \<notin> set header \<Longrightarrow> parse_header header = Inr []"
  by (simp add: parse_header_def split_no_sep)

lemma parse_rows_skip:
  "length (split (CHR '','') (strip l)) < 2 \<Longrightarrow>
   parse_rows (xs @ l # ys) ts rs = parse_rows (xs @ ys) ts rs"
proof (induction xs arbitrary: ts rs)
  case Nil
  then show ?case by simp
next
  case (Cons x xs)
  then show ?case
    by (simp add: Let_def split: sum.splits)
qed

text \<open>The two lists of the loop stay parallel.\<close>

lemma parse_rows_parallel:
  "parse_rows ls ts0 rs0 = Inr (ts, rs) \<Longrightarrow> length ts0 = length rs0 \<Longrightarrow>
   length ts = length rs"
proof (induction ls arbitrary: ts0 rs0)
  case Nil
  then show ?case by simp
next
  case (Cons l ls)
  then show ?case
    by (auto simp: Let_def split: if_splits sum.splits)
qed

lemma parse_rows_timestamps:
  "parse_rows ls [] [] = Inr (ts, rs) \<Longrightarrow> rs \<noteq> [] \<Longrightarrow> ts \<noteq> []"
  using parse_rows_parallel [of ls "[]" "[]" ts rs] by auto

lemma int64_sub_self: "int64_sub t t = 0"
  by (simp add: int64_sub_def)

lemma int64_sub_exact: "in_int64 (a - b) \<Longrightarrow> int64_sub a b = a - b"
  by (simp add: int64_sub_def in_int64_def)

lemma f64_zero_over_1000: "f64_div (f64_of_int 0) (F64 False 1000) = F64 False 0"
  by (simp add: f64_of_int_def round_f64_def)

lemma time_sec_first: "hd (time_sec (t # rest) t) = F64 False 0"
  by (simp add: time_sec_def int64_sub_self f64_zero_over_1000)

lemma time_sec_exact:
  "list_all (\<lambda>t. in_int64 (t - t0)) xs \<Longrightarrow>
   time_sec xs t0 = map (\<lambda>t. f64_div (f64_of_int (t - t0)) (F64 False 1000)) xs"
  by (induction xs) (simp_all add: time_sec_def int64_sub_exact)

lemma stdout_of_append: "stdout_of (xs @ ys) = stdout_of xs @ stdout_of ys"
  by (induction xs) (auto split: event.splits)

subsection \<open>The figure\<close>

text \<open>The calls of the figure are made in their order, up to the first that raises.\<close>

lemma plot_completed:
  "snd (plot e a freqs ts m) = Completed \<Longrightarrow>
   fst (plot e a freqs ts m) = figure_calls a freqs ts m @ closing_events a"
  by (auto simp: plot_def save_or_show_def call_def after_def figure_calls_def
      closing_events_def split: option.splits if_splits)

lemma plot_no_raise:
  "(\<And>ev. mpl_raises e ev = None) \<Longrightarrow>
   plot e a freqs ts m = (figure_calls a freqs ts m @ closing_events a, Completed)"
  by (simp add: plot_def save_or_show_def call_def after_def figure_calls_def
      closing_events_def split: option.splits)

lemma plot_savefig:
  "Savefig q d \<in> set (fst (plot e a freqs ts m)) \<Longrightarrow>
   output_path a = Some q \<and> q \<noteq> [] \<and> d = 150"
  by (auto simp: plot_def save_or_show_def call_def after_def
      split: option.splits if_splits)


lemma stdout_of_plot:
  "stdout_of (fst (plot e a freqs ts m)) =
     (case output_path a of
        None \<Rightarrow> []
      | Some path \<Rightarrow>
          if path \<noteq> [] \<and> snd (plot e a freqs ts m) = Completed
          then [''Saved to '' @ path] else [])"
  by (auto simp: plot_def save_or_show_def call_def after_def
      split: option.splits if_splits)

lemma figure_calls_no_end:
  "Show \<notin> set (figure_calls a freqs ts m)"
  "Savefig q d \<notin> set (figure_calls a freqs ts m)"
  by (simp_all add: figure_calls_def)

subsection \<open>The stages of \<open>main\<close>\<close>

lemma main_reads_file:
  "mpl_available e \<Longrightarrow> files e (csvfile a) = Some txt \<Longrightarrow>
   main a e =
     after [Stdout (''Reading '' @ csvfile a @ ''...''), Open_file (csvfile a)]
       (process e a (fst (read_csv txt)) (snd (read_csv txt)))"
  by (simp add: main_def)

lemma process_no_rows:
  "parse_header h = Inr freqs \<Longrightarrow> parse_rows ls [] [] = Inr (ts, []) \<Longrightarrow>
   process e a h ls = ([Stderr ''Error: No data rows found in CSV''], Sys_exit 1)"
  by (simp add: process_def)

lemma process_ragged:
  "parse_header h = Inr freqs \<Longrightarrow> parse_rows ls [] [] = Inr (ts, rs) \<Longrightarrow> rs \<noteq> [] \<Longrightarrow>
   \<not> rectangular rs \<Longrightarrow> process e a h ls = ([], Uncaught ValueError)"
  by (simp add: process_def)

lemma process_report:
  "parse_header h = Inr freqs \<Longrightarrow> parse_rows ls [] [] = Inr (ts, rs) \<Longrightarrow> rs \<noteq> [] \<Longrightarrow>
   rectangular rs \<Longrightarrow> list_all in_int64 ts \<Longrightarrow>
   process e a h ls = report e a freqs ts rs"
  by (simp add: process_def)

lemma report_success:
  "ts \<noteq> [] \<Longrightarrow> freqs \<noteq> [] \<Longrightarrow>
   report e a freqs ts rs =
     after
       [Stdout (''Loaded '' @ show_nat (int (length ts)) @ '' frames, '' @
                show_nat (int (length freqs)) @ '' frequency bins''),
        Stdout (''Frequency range: '' @ fmt_fixed 3 (hd freqs) @ '' - '' @
                fmt_fixed 3 (last freqs) @ '' MHz''),
        Stdout (''Duration: '' @ fmt_fixed 2 (last (time_sec ts (hd ts))) @ '' seconds'')]
       (plot e a freqs (time_sec ts (hd ts)) rs)"
  by (cases ts) (simp_all add: report_def after_def)

lemma report_no_freqs:
  "ts \<noteq> [] \<Longrightarrow>
   report e a [] ts rs =
     ([Stdout (''Loaded '' @ show_nat (int (length ts)) @ '' frames, 0 frequency bins'')],
      Uncaught IndexError)"
  by (cases ts) (simp_all add: report_def after_def show_nat.simps)

text \<open>A run on a file that parses into at least one frequency and one row.\<close>

lemma main_success:
  assumes "mpl_available e" and "files e (csvfile a) = Some txt"
    and "parse_header (fst (read_csv txt)) = Inr freqs" and "freqs \<noteq> []"
    and "parse_rows (snd (read_csv txt)) [] [] = Inr (ts, rs)" and "rs \<noteq> []"
    and "rectangular rs" and "list_all in_int64 ts"
  shows "main a e =
     after
       [Stdout (''Reading '' @ csvfile a @ ''...''), Open_file (csvfile a),
        Stdout (''Loaded '' @ show_nat (int (length ts)) @ '' frames, '' @
                show_nat (int (length freqs)) @ '' frequency bins''),
        Stdout (''Frequency range: '' @ fmt_fixed 3 (hd freqs) @ '' - '' @
                fmt_fixed 3 (last freqs) @ '' MHz''),
        Stdout (''Duration: '' @ fmt_fixed 2 (last (time_sec ts (hd ts))) @ '' seconds'')]
       (plot e a freqs (time_sec ts (hd ts)) rs)"
proof -
  have ts: "ts \<noteq> []"
    using assms(5,6) by (rule parse_rows_timestamps)
  have "main a e =
      after [Stdout (''Reading '' @ csvfile a @ ''...''), Open_file (csvfile a)]
        (report e a freqs ts rs)"
    using assms by (simp add: main_reads_file process_report)
  then show ?thesis
    using ts assms(4) by (simp add: report_success after_def)
qed

text \<open>A run on a file whose header has no frequency and that has a row.\<close>

lemma main_no_freqs:
  assumes "mpl_available e" and "files e (csvfile a) = Some txt"
    and "parse_header (fst (read_csv txt)) = Inr []"
    and "parse_rows (snd (read_csv txt)) [] [] = Inr (ts, rs)" and "rs \<noteq> []"
    and "rectangular rs" and "list_all in_int64 ts"
  shows "main a e =
     ([Stdout (''Reading '' @ csvfile a @ ''...''), Open_file (csvfile a),
       Stdout (''Loaded '' @ show_nat (int (length ts)) @ '' frames, 0 frequency bins'')],
      Uncaught IndexError)"
proof -
  have ts: "ts \<noteq> []"
    using assms(4,5) by (rule parse_rows_timestamps)
  have "main a e =
      after [Stdout (''Reading '' @ csvfile a @ ''...''), Open_file (csvfile a)]
        (report e a [] ts rs)"
    using assms by (simp add: main_reads_file process_report)
  then show ?thesis
    using ts by (simp add: report_no_freqs after_def)
qed

text \<open>\<open>savefig\<close> is called only with the output path of the arguments, which is then
  not empty, and at 150 dpi.\<close>

lemma savefig_only_output:
  "Savefig q d \<in> set (fst (main a e)) \<Longrightarrow> output_path a = Some q \<and> q \<noteq> [] \<and> d = 150"
  by (auto simp: main_def after_def process_def report_def dest: plot_savefig
      split: if_splits option.splits sum.splits prod.splits list.splits)

text \<open>A run that returns from \<open>main\<close> has ended with the events of lines 85 to 89, and
  has neither saved nor shown the figure before.\<close>

lemma completed_ends_with_closing_events:
  "snd (main a e) = Completed \<Longrightarrow>
   \<exists>evs. fst (main a e) = evs @ closing_events a \<and> Show \<notin> set evs \<and>
         (\<forall>q d. Savefig q d \<notin> set evs)"
  by (auto simp: main_def after_def process_def report_def plot_completed figure_calls_no_end
      split: if_splits option.splits sum.splits prod.splits list.splits)



subsection \<open>The example inputs, evaluated\<close>

lemma sample_read:
  "read_csv sample_csv =
     (''t,1.0,2.0,3.0'', [''0,-50,-60,-70\<newline>'', ''1000,-55,-65,-75\<newline>''])"
  by code_simp

lemma sample_header:
  "parse_header ''t,1.0,2.0,3.0'' = Inr [F64 False 1, F64 False 2, F64 False 3]"
  by code_simp

lemma sample_rows:
  "parse_rows [''0,-50,-60,-70\<newline>'', ''1000,-55,-65,-75\<newline>''] [] [] =
     Inr ([0, 1000], sample_matrix)"
  by code_simp

lemma sample_time: "time_sec [0, 1000] 0 = [F64 False 0, F64 False 1]"
  by code_simp

lemma sample_rectangular: "rectangular sample_matrix"
  by code_simp

lemma sample_int64: "list_all in_int64 [0, 1000]"
  by code_simp

lemma sample_lines:
  "fmt_fixed 3 (F64 False 1) = ''1.000''" "fmt_fixed 3 (F64 False 3) = ''3.000''"
  "fmt_fixed 2 (F64 False 1) = ''1.00''" "fmt_fixed 2 (F64 False 0) = ''0.00''"
  "show_nat 1 = ''1''" "show_nat 2 = ''2''" "show_nat 3 = ''3''"
  by code_simp+

lemma sample_env [simp]:
  "mpl_available (env_with txt)" "files (env_with txt) p = Some txt"
  "mpl_raises (env_with txt) ev = None"
  by (simp_all add: env_with_def)

lemma savefig_fails_env [simp]:
  "mpl_available (env_savefig_fails txt)" "files (env_savefig_fails txt) p = Some txt"
  by (simp_all add: env_savefig_fails_def)

lemma sample_args_sel [simp]:
  "csvfile (sample_args out) = ''spectrum.csv''" "output_path (sample_args out) = out"
  "cmap (sample_args out) = ''viridis''" "vmin (sample_args out) = Py_int (- 80)"
  "vmax (sample_args out) = Py_int (- 30)"
  by (simp_all add: sample_args_def)

lemma sample_parsed:
  "parse_header (fst (read_csv sample_csv)) = Inr [F64 False 1, F64 False 2, F64 False 3]"
  "parse_rows (snd (read_csv sample_csv)) [] [] = Inr ([0, 1000], sample_matrix)"
  by (simp_all only: sample_read fst_conv snd_conv sample_header sample_rows)

lemma sample_nonempty:
  "[F64 False 1, F64 False 2, F64 False 3] \<noteq> []" "sample_matrix \<noteq> []"
  by (simp_all add: sample_matrix_def)

text \<open>The run on the example, in an environment where the text is read: the five lines
  up to the summary, and then the figure.\<close>

lemma sample_main_plot:
  assumes "mpl_available e" and "files e ''spectrum.csv'' = Some sample_csv"
  shows "main (sample_args out) e =
     after
       [Stdout ''Reading spectrum.csv...'', Open_file ''spectrum.csv'',
        Stdout ''Loaded 2 frames, 3 frequency bins'',
        Stdout ''Frequency range: 1.000 - 3.000 MHz'',
        Stdout ''Duration: 1.00 seconds'']
       (plot e (sample_args out) [F64 False 1, F64 False 2, F64 False 3]
          [F64 False 0, F64 False 1] sample_matrix)"
proof -
  have f: "files e (csvfile (sample_args out)) = Some sample_csv"
    using assms(2) by simp
  show ?thesis
    using main_success [OF assms(1) f sample_parsed(1) sample_nonempty(1)
        sample_parsed(2) sample_nonempty(2) sample_rectangular sample_int64]
    by (simp add: sample_time sample_lines)
qed

lemma sample_main:
  "main (sample_args out) (env_with sample_csv) =
     ([Stdout ''Reading spectrum.csv...'', Open_file ''spectrum.csv'',
       Stdout ''Loaded 2 frames, 3 frequency bins'',
       Stdout ''Frequency range: 1.000 - 3.000 MHz'',
       Stdout ''Duration: 1.00 seconds''] @
      figure_calls (sample_args out) [F64 False 1, F64 False 2, F64 False 3]
        [F64 False 0, F64 False 1] sample_matrix @
      closing_events (sample_args out), Completed)"
  by (simp add: sample_main_plot plot_no_raise after_def)

lemma sample_main_savefig_fails:
  "main (sample_args (Some ''out.png'')) (env_savefig_fails sample_csv) =
     ([Stdout ''Reading spectrum.csv...'', Open_file ''spectrum.csv'',
       Stdout ''Loaded 2 frames, 3 frequency bins'',
       Stdout ''Frequency range: 1.000 - 3.000 MHz'',
       Stdout ''Duration: 1.00 seconds''] @
      figure_calls (sample_args (Some ''out.png'')) [F64 False 1, F64 False 2, F64 False 3]
        [F64 False 0, F64 False 1] sample_matrix @
      [Savefig ''out.png'' 150], Uncaught OSError)"
  by (simp add: sample_main_plot after_def)
    (simp add: plot_def save_or_show_def call_def after_def figure_calls_def
      env_savefig_fails_def)

lemma header_only_parsed:
  "parse_header (fst (read_csv header_only_csv)) = Inr [F64 False 1, F64 False 2, F64 False 3]"
  "parse_rows (snd (read_csv header_only_csv)) [] [] = Inr ([], [])"
  by code_simp+

lemma falling_parsed:
  "parse_header (fst (read_csv falling_csv)) = Inr [F64 False 2, F64 False 1]"
  "parse_rows (snd (read_csv falling_csv)) [] [] = Inr ([0], [[F64 True 50, F64 True 60]])"
  "rectangular [[F64 True 50, F64 True 60]]" "list_all in_int64 [0]"
  by code_simp+

lemma falling_lines:
  "fmt_fixed 3 (F64 False 2) = ''2.000''"
  "time_sec [0] 0 = [F64 False 0]"
  "spec_frequency_range [F64 False 2, F64 False 1] = ''Frequency range: 1.000 - 2.000 MHz''"
  by code_simp+

lemma bare_parsed:
  "fst (read_csv bare_header_csv) = ''t''"
  "parse_rows (snd (read_csv bare_header_csv)) [] [] = Inr ([0], [[F64 True 50]])"
  "rectangular [[F64 True 50]]"
  by code_simp+

lemma ragged_parsed:
  "fst (read_csv ragged_csv) = ''t''"
  "parse_header (fst (read_csv ragged_csv)) = Inr []"
  "parse_rows (snd (read_csv ragged_csv)) [] [] =
     Inr ([0, 1], [[F64 True 50], [F64 True 50, F64 True 60]])"
  "\<not> rectangular [[F64 True 50], [F64 True 50, F64 True 60]]"
  by code_simp+

lemma wrap_parsed:
  "parse_header (fst (read_csv wrap_csv)) = Inr [F64 False 1]"
  "parse_rows (snd (read_csv wrap_csv)) [] [] =
     Inr ([- 9223372036854775808, 1], [[F64 True 50], [F64 True 50]])"
  "rectangular [[F64 True 50], [F64 True 50]]"
  "list_all in_int64 [- 9223372036854775808, 1]"
  by code_simp+

lemma wrap_time:
  "time_sec [- 9223372036854775808, 1] (- 9223372036854775808) =
     [F64 False 0, F64 True 9223372036854776]"
  "spec_relative_time [- 9223372036854775808, 1] = [F64 False 0, F64 False 9223372036854776]"
  "fmt_fixed 2 (F64 True 9223372036854776) = ''-9223372036854776.00''"
  by code_simp+

lemma epoch_time:
  "spec_relative_time [1700000000000, 1700000001500] = [F64 False 0, F64 False (3 / 2)]"
  "list_all (\<lambda>t. in_int64 (t - 1700000000000)) [1700000000000, 1700000001500]"
  by code_simp+

section \<open>The example of the specification\<close>

text \<open>
  Claim C1. For the file with the header \<open>t,1.0,2.0,3.0\<close> and the rows
  \<open>0,-50,-60,-70\<close> and \<open>1000,-55,-65,-75\<close>, the header parses into the frequencies
  1.0, 2.0, 3.0, the rows into the timestamps 0, 1000 and the readings
  -50, -60, -70 and -55, -65, -75, in the order of the file; the relative times are
  0.0 and 1.0; and the run hands this matrix to \<open>imshow\<close>.
\<close>

theorem sample_csv_parsed_in_order:
  "read_csv sample_csv =
     (''t,1.0,2.0,3.0'', [''0,-50,-60,-70\<newline>'', ''1000,-55,-65,-75\<newline>''])
   \<and> parse_header (fst (read_csv sample_csv)) = Inr [F64 False 1, F64 False 2, F64 False 3]
   \<and> parse_rows (snd (read_csv sample_csv)) [] [] =
       Inr ([0, 1000],
            [[F64 True 50, F64 True 60, F64 True 70], [F64 True 55, F64 True 65, F64 True 75]])
   \<and> time_sec [0, 1000] 0 = [F64 False 0, F64 False 1]
   \<and> Imshow [[F64 True 50, F64 True 60, F64 True 70], [F64 True 55, F64 True 65, F64 True 75]]
         [F64 False 1, F64 False 3, F64 False 1, F64 False 0]
         ''auto'' ''viridis'' (Py_int (- 80)) (Py_int (- 30)) ''nearest''
       \<in> set (fst (main (sample_args None) (env_with sample_csv)))"
proof (intro conjI)
  show "read_csv sample_csv =
     (''t,1.0,2.0,3.0'', [''0,-50,-60,-70\<newline>'', ''1000,-55,-65,-75\<newline>''])"
    by (rule sample_read)
  show "parse_header (fst (read_csv sample_csv)) = Inr [F64 False 1, F64 False 2, F64 False 3]"
    by (rule sample_parsed(1))
  show "parse_rows (snd (read_csv sample_csv)) [] [] =
       Inr ([0, 1000],
            [[F64 True 50, F64 True 60, F64 True 70], [F64 True 55, F64 True 65, F64 True 75]])"
    using sample_parsed(2) by (simp only: sample_matrix_def)
  show "time_sec [0, 1000] 0 = [F64 False 0, F64 False 1]"
    by (rule sample_time)
  show "Imshow [[F64 True 50, F64 True 60, F64 True 70], [F64 True 55, F64 True 65, F64 True 75]]
         [F64 False 1, F64 False 3, F64 False 1, F64 False 0]
         ''auto'' ''viridis'' (Py_int (- 80)) (Py_int (- 30)) ''nearest''
       \<in> set (fst (main (sample_args None) (env_with sample_csv)))"
    by (simp add: sample_main figure_calls_def sample_matrix_def)
qed

section \<open>Lines without a comma\<close>

text \<open>
  Claim C2. A line that splits on the comma into fewer than two fields is skipped:
  wherever it stands among the lines, and whatever the loop has collected so far, the
  loop gives the same timestamps and readings (or raises the same error) as without
  that line, so the lines after it are parsed as before; and the rest of the run, with
  all it prints to standard output and standard error, is the same as without it.
\<close>

theorem short_line_is_skipped:
  assumes "length (split (CHR '','') (strip l)) < 2"
  shows "parse_rows (xs @ l # ys) ts rs = parse_rows (xs @ ys) ts rs
         \<and> process e a header (xs @ l # ys) = process e a header (xs @ ys)"
proof -
  have "parse_rows (xs @ l # ys) ts' rs' = parse_rows (xs @ ys) ts' rs'" for ts' rs'
    using assms by (rule parse_rows_skip)
  then show ?thesis
    by (cases "parse_header header") (simp_all add: process_def)
qed

theorem short_line_is_skipped_witness:
  "length (split (CHR '','') (strip ''\<newline>'')) < 2
   \<and> parse_rows [''0,-50,-60,-70\<newline>'', ''\<newline>'', ''1000,-55,-65,-75\<newline>''] [] [] =
       Inr ([0, 1000],
            [[F64 True 50, F64 True 60, F64 True 70], [F64 True 55, F64 True 65, F64 True 75]])"
proof -
  have short: "length (split (CHR '','') (strip ''\<newline>'')) < 2"
    by code_simp
  have "parse_rows ([''0,-50,-60,-70\<newline>''] @ ''\<newline>'' # [''1000,-55,-65,-75\<newline>'']) [] [] =
        parse_rows ([''0,-50,-60,-70\<newline>''] @ [''1000,-55,-65,-75\<newline>'']) [] []"
    using short_line_is_skipped [OF short] by (rule conjunct1)
  then have "parse_rows [''0,-50,-60,-70\<newline>'', ''\<newline>'', ''1000,-55,-65,-75\<newline>''] [] [] =
        parse_rows [''0,-50,-60,-70\<newline>'', ''1000,-55,-65,-75\<newline>''] [] []"
    by (simp only: append_Cons append_Nil)
  also have "\<dots> = Inr ([0, 1000],
            [[F64 True 50, F64 True 60, F64 True 70], [F64 True 55, F64 True 65, F64 True 75]])"
    using sample_rows by (simp only: sample_matrix_def)
  finally show ?thesis
    using short by (rule conjI [rotated])
qed

section \<open>Files without data\<close>

text \<open>
  Claim C3. When matplotlib is there, the file is read and its header parses, and the
  loop ends with no row collected, the run prints
  \<open>Error: No data rows found in CSV\<close> to standard error and ends with \<open>sys.exit(1)\<close>;
  no call into matplotlib is made, so the figure is neither saved nor shown.
\<close>

theorem no_data_rows_exit:
  assumes "mpl_available e" and "files e (csvfile a) = Some txt"
    and "parse_header (fst (read_csv txt)) = Inr freqs"
    and "parse_rows (snd (read_csv txt)) [] [] = Inr (ts, [])"
  shows "main a e =
           ([Stdout (''Reading '' @ csvfile a @ ''...''), Open_file (csvfile a),
             Stderr ''Error: No data rows found in CSV''], Sys_exit 1)
         \<and> exit_status (snd (main a e)) = Some 1
         \<and> Show \<notin> set (fst (main a e))
         \<and> (\<forall>q d. Savefig q d \<notin> set (fst (main a e)))"
  using assms by (simp add: main_reads_file process_no_rows after_def exit_status_def)

theorem no_data_rows_exit_witness:
  "main (sample_args None) (env_with header_only_csv) =
     ([Stdout ''Reading spectrum.csv...'', Open_file ''spectrum.csv'',
       Stderr ''Error: No data rows found in CSV''], Sys_exit 1)"
  using no_data_rows_exit [OF sample_env(1) sample_env(2) header_only_parsed,
      of "sample_args None"]
  by simp

text \<open>
  Claim C9. For a file of zero bytes the header is the empty string, which parses into
  no frequency, and there is no line; the run prints the error of the empty dataset to
  standard error and ends with \<open>sys.exit(1)\<close>.
\<close>

theorem empty_file_exit:
  assumes "mpl_available e" and "files e (csvfile a) = Some []"
  shows "parse_header (fst (read_csv [])) = Inr []
         \<and> parse_rows (snd (read_csv [])) [] [] = Inr ([], [])
         \<and> main a e =
             ([Stdout (''Reading '' @ csvfile a @ ''...''), Open_file (csvfile a),
               Stderr ''Error: No data rows found in CSV''], Sys_exit 1)
         \<and> exit_status (snd (main a e)) = Some 1"
proof -
  have h: "parse_header (fst (read_csv [])) = Inr []"
    by (simp add: read_csv_def parse_header_def)
  have r: "parse_rows (snd (read_csv [])) [] [] = Inr ([], [])"
    by (simp add: read_csv_def)
  from assms h r show ?thesis
    by (simp add: main_reads_file process_no_rows after_def exit_status_def)
qed

theorem empty_file_exit_witness:
  "main (sample_args None) (env_with []) =
     ([Stdout ''Reading spectrum.csv...'', Open_file ''spectrum.csv'',
       Stderr ''Error: No data rows found in CSV''], Sys_exit 1)"
  using empty_file_exit [OF sample_env(1) sample_env(2), of "sample_args None"]
  by simp

section \<open>A header without frequencies\<close>

text \<open>
  Claim C10, as amended. When the header has no comma, so that no frequency is read,
  and the lines parse into at least one row, the rows all of one length and the
  timestamps 64-bit integers, the run passes the check of the empty dataset, prints
  the line of the counts with 0 frequency bins and ends there with an uncaught
  \<open>IndexError\<close>, raised by \<open>freqs[0]\<close> of the next line; no call into matplotlib is made.
\<close>

theorem header_without_frequencies_raises:
  assumes "mpl_available e" and "files e (csvfile a) = Some txt"
    and "CHR '','' \<notin> set (fst (read_csv txt))"
    and "parse_rows (snd (read_csv txt)) [] [] = Inr (ts, rs)" and "rs \<noteq> []"
    and "rectangular rs" and "list_all in_int64 ts"
  shows "parse_header (fst (read_csv txt)) = Inr []
         \<and> main a e =
             ([Stdout (''Reading '' @ csvfile a @ ''...''), Open_file (csvfile a),
               Stdout (''Loaded '' @ show_nat (int (length ts)) @
                       '' frames, 0 frequency bins'')],
              Uncaught IndexError)
         \<and> exit_status (snd (main a e)) = Some 1"
proof -
  have h: "parse_header (fst (read_csv txt)) = Inr []"
    using assms(3) by (rule parse_header_no_comma)
  have "main a e =
             ([Stdout (''Reading '' @ csvfile a @ ''...''), Open_file (csvfile a),
               Stdout (''Loaded '' @ show_nat (int (length ts)) @
                       '' frames, 0 frequency bins'')],
              Uncaught IndexError)"
    using assms(1,2) h assms(4-7) by (rule main_no_freqs)
  with h show ?thesis
    by (simp add: exit_status_def)
qed

theorem header_without_frequencies_raises_witness:
  "main (sample_args None) (env_with bare_header_csv) =
     ([Stdout ''Reading spectrum.csv...'', Open_file ''spectrum.csv'',
       Stdout ''Loaded 1 frames, 0 frequency bins''], Uncaught IndexError)"
proof -
  have c: "CHR '','' \<notin> set (fst (read_csv bare_header_csv))"
    by (simp add: bare_parsed(1))
  have i: "list_all in_int64 [0]" and n: "[[F64 True 50]] \<noteq> []"
    by (simp_all add: in_int64_def)
  show ?thesis
    using header_without_frequencies_raises [OF sample_env(1) sample_env(2) c
        bare_parsed(2) n bare_parsed(3) i, of "sample_args None"]
    by (simp add: sample_lines)
qed

text \<open>
  The claim as it is written fails when the rows have different lengths: for the header
  \<open>t\<close> and the rows \<open>0,-50\<close> and \<open>1,-50,-60\<close>, each of which parses, \<open>np.array\<close> raises
  \<open>ValueError\<close> at line 55; the run ends there, before the line of the counts, and not
  with an \<open>IndexError\<close>.
\<close>

theorem ragged_rows_counterexample:
  "parse_header (fst (read_csv ragged_csv)) = Inr []
   \<and> parse_rows (snd (read_csv ragged_csv)) [] [] =
       Inr ([0, 1], [[F64 True 50], [F64 True 50, F64 True 60]])
   \<and> main (sample_args None) (env_with ragged_csv) =
       ([Stdout ''Reading spectrum.csv...'', Open_file ''spectrum.csv''],
        Uncaught ValueError)
   \<and> snd (main (sample_args None) (env_with ragged_csv)) \<noteq> Uncaught IndexError"
proof -
  have n: "[[F64 True 50], [F64 True 50, F64 True 60]] \<noteq> []"
    by simp
  have "process (env_with ragged_csv) (sample_args None) (fst (read_csv ragged_csv))
          (snd (read_csv ragged_csv)) = ([], Uncaught ValueError)"
    using ragged_parsed(2) ragged_parsed(3) n ragged_parsed(4) by (rule process_ragged)
  then have "main (sample_args None) (env_with ragged_csv) =
       ([Stdout ''Reading spectrum.csv...'', Open_file ''spectrum.csv''],
        Uncaught ValueError)"
    by (simp add: main_reads_file [OF sample_env(1) sample_env(2)] after_def)
  then show ?thesis
    using ragged_parsed(2) ragged_parsed(3) by simp
qed

section \<open>The relative time axis\<close>

text \<open>
  Claim C4, as amended. The timestamps reach line 61 as an array of signed 64-bit
  integers. The first relative time is exactly 0.0, whatever the first timestamp is.
  Every relative time is the timestamp minus the first timestamp, converted to a float
  and divided by 1000.0, provided each of these differences fits into a signed 64-bit
  integer; the subtraction of the array wraps around otherwise.
\<close>

theorem relative_time_of_int64:
  "hd (time_sec (t0 # rest) t0) = F64 False 0
   \<and> (list_all (\<lambda>t. in_int64 (t - t0)) (t0 # rest) \<longrightarrow>
        time_sec (t0 # rest) t0 = spec_relative_time (t0 # rest))"
proof (intro conjI impI)
  show "hd (time_sec (t0 # rest) t0) = F64 False 0"
    by (rule time_sec_first)
next
  assume "list_all (\<lambda>t. in_int64 (t - t0)) (t0 # rest)"
  then have "time_sec (t0 # rest) t0 =
      map (\<lambda>t. f64_div (f64_of_int (t - t0)) (F64 False 1000)) (t0 # rest)"
    by (rule time_sec_exact)
  then show "time_sec (t0 # rest) t0 = spec_relative_time (t0 # rest)"
    by (simp add: spec_relative_time_def)
qed

theorem relative_time_of_int64_witness:
  "list_all (\<lambda>t. in_int64 (t - 1700000000000)) [1700000000000, 1700000001500]
   \<and> hd (time_sec [1700000000000, 1700000001500] 1700000000000) = F64 False 0
   \<and> time_sec [1700000000000, 1700000001500] 1700000000000 =
       [F64 False 0, F64 False (3 / 2)]"
proof -
  note th = relative_time_of_int64 [of 1700000000000 "[1700000001500]"]
  have "time_sec [1700000000000, 1700000001500] 1700000000000 =
        spec_relative_time [1700000000000, 1700000001500]"
    using th [THEN conjunct2] epoch_time(2) by (rule mp)
  then have "time_sec [1700000000000, 1700000001500] 1700000000000 =
       [F64 False 0, F64 False (3 / 2)]"
    by (simp only: epoch_time(1))
  with epoch_time(2) th [THEN conjunct1] show ?thesis
    by (intro conjI)
qed

text \<open>
  The claim as it is written fails for the timestamps \<open>-9223372036854775808\<close> and \<open>1\<close>:
  their difference is \<open>2 ^ 63 + 1\<close>, the array holds \<open>-2 ^ 63 + 1\<close> instead, and the run
  reports a negative duration.
\<close>

theorem relative_time_wraps_counterexample:
  "parse_rows (snd (read_csv wrap_csv)) [] [] =
     Inr ([- 9223372036854775808, 1], [[F64 True 50], [F64 True 50]])
   \<and> time_sec [- 9223372036854775808, 1] (- 9223372036854775808) =
       [F64 False 0, F64 True 9223372036854776]
   \<and> spec_relative_time [- 9223372036854775808, 1] =
       [F64 False 0, F64 False 9223372036854776]
   \<and> time_sec [- 9223372036854775808, 1] (- 9223372036854775808) \<noteq>
       spec_relative_time [- 9223372036854775808, 1]
   \<and> Stdout ''Duration: -9223372036854776.00 seconds''
       \<in> set (fst (main (sample_args None) (env_with wrap_csv)))"
proof -
  have ne: "[F64 False 1] \<noteq> []" "[[F64 True 50], [F64 True 50]] \<noteq> []"
    by simp_all
  have "Stdout ''Duration: -9223372036854776.00 seconds''
       \<in> set (fst (main (sample_args None) (env_with wrap_csv)))"
    using main_success [OF sample_env(1) sample_env(2) wrap_parsed(1) ne(1)
        wrap_parsed(2) ne(2) wrap_parsed(3) wrap_parsed(4), of "sample_args None"]
    by (simp add: wrap_time after_def)
  then show ?thesis
    using wrap_parsed(2) by (simp add: wrap_time)
qed

section \<open>Saving or showing the figure\<close>

text \<open>
  Claim C6, as amended. A run that returns from \<open>main\<close> has, as its last events, either
  one call of \<open>savefig\<close> with exactly the output path, at 150 dpi, and the line
  \<open>Saved to\<close> with that path, when an output path that is not the empty string was
  given; or one call of \<open>show\<close>, when the output path was left out or is the empty
  string. In the first case \<open>show\<close> is not called. In the second case no run, whether
  it returns or not, calls \<open>savefig\<close>.
\<close>

theorem save_xor_show:
  "(snd (main a e) = Completed \<and> output_path a = Some p \<and> p \<noteq> [] \<longrightarrow>
      (\<exists>evs. fst (main a e) = evs @ [Savefig p 150, Stdout (''Saved to '' @ p)]
             \<and> Show \<notin> set evs \<and> (\<forall>q d. Savefig q d \<notin> set evs)))
   \<and> (snd (main a e) = Completed \<and> (output_path a = None \<or> output_path a = Some []) \<longrightarrow>
      (\<exists>evs. fst (main a e) = evs @ [Show] \<and> Show \<notin> set evs))
   \<and> (output_path a = None \<or> output_path a = Some [] \<longrightarrow>
      (\<forall>q d. Savefig q d \<notin> set (fst (main a e))))"
proof (intro conjI impI)
  assume "snd (main a e) = Completed \<and> output_path a = Some p \<and> p \<noteq> []"
  then show "\<exists>evs. fst (main a e) = evs @ [Savefig p 150, Stdout (''Saved to '' @ p)]
             \<and> Show \<notin> set evs \<and> (\<forall>q d. Savefig q d \<notin> set evs)"
    using completed_ends_with_closing_events [of a e] by (auto simp: closing_events_def)
next
  assume "snd (main a e) = Completed \<and> (output_path a = None \<or> output_path a = Some [])"
  then show "\<exists>evs. fst (main a e) = evs @ [Show] \<and> Show \<notin> set evs"
    using completed_ends_with_closing_events [of a e] by (auto simp: closing_events_def)
next
  assume "output_path a = None \<or> output_path a = Some []"
  then show "\<forall>q d. Savefig q d \<notin> set (fst (main a e))"
    by (auto dest: savefig_only_output)
qed

theorem save_xor_show_witness:
  "snd (main (sample_args (Some ''out.png'')) (env_with sample_csv)) = Completed
   \<and> (\<exists>evs. fst (main (sample_args (Some ''out.png'')) (env_with sample_csv)) =
              evs @ [Savefig ''out.png'' 150, Stdout ''Saved to out.png'']
            \<and> Show \<notin> set evs \<and> (\<forall>q d. Savefig q d \<notin> set evs))
   \<and> snd (main (sample_args None) (env_with sample_csv)) = Completed
   \<and> (\<exists>evs. fst (main (sample_args None) (env_with sample_csv)) = evs @ [Show]
            \<and> Show \<notin> set evs)
   \<and> (\<forall>q d. Savefig q d \<notin> set (fst (main (sample_args None) (env_with sample_csv))))"
proof -
  have c: "snd (main (sample_args out) (env_with sample_csv)) = Completed" for out
    by (simp add: sample_main)
  show ?thesis
    using save_xor_show [of "sample_args (Some ''out.png'')" "env_with sample_csv" "''out.png''"]
      save_xor_show [of "sample_args None" "env_with sample_csv"]
    by (simp add: c)
qed

text \<open>
  The claim as it is written fails for \<open>-o ""\<close>: the output path is supplied, the test
  \<open>if args.output:\<close> is false for the empty string, and the run shows the figure.
\<close>

theorem empty_output_path_counterexample:
  "output_path (sample_args (Some [])) = Some []
   \<and> snd (main (sample_args (Some [])) (env_with sample_csv)) = Completed
   \<and> Show \<in> set (fst (main (sample_args (Some [])) (env_with sample_csv)))
   \<and> (\<forall>q d. Savefig q d \<notin> set (fst (main (sample_args (Some [])) (env_with sample_csv))))"
  by (simp add: sample_main figure_calls_def closing_events_def)

section \<open>The summary\<close>

text \<open>
  Claim C7, as amended. When the file parses into at least one frequency and at least
  one row (the rows of one length, the timestamps 64-bit integers), the run prints to
  standard output, after the line \<open>Reading ...\<close>, exactly three lines: the counts of
  rows and of frequencies; the first and the last frequency of the header, in the order
  of the header, in the format \<open>.3f\<close>; and the last relative time in the format \<open>.2f\<close>.
  The line \<open>Saved to ...\<close> follows when an output path that is not empty was given and
  the run returns from \<open>main\<close>, that is when the figure has been saved; nothing else is
  printed.
\<close>

theorem summary_lines:
  assumes "mpl_available e" and "files e (csvfile a) = Some txt"
    and "parse_header (fst (read_csv txt)) = Inr freqs" and "freqs \<noteq> []"
    and "parse_rows (snd (read_csv txt)) [] [] = Inr (ts, rs)" and "rs \<noteq> []"
    and "rectangular rs" and "list_all in_int64 ts"
  shows "stdout_of (fst (main a e)) =
     [''Reading '' @ csvfile a @ ''...'',
      ''Loaded '' @ show_nat (int (length ts)) @ '' frames, '' @
        show_nat (int (length freqs)) @ '' frequency bins'',
      ''Frequency range: '' @ fmt_fixed 3 (hd freqs) @ '' - '' @
        fmt_fixed 3 (last freqs) @ '' MHz'',
      ''Duration: '' @ fmt_fixed 2 (last (time_sec ts (hd ts))) @ '' seconds''] @
     (case output_path a of
        None \<Rightarrow> []
      | Some path \<Rightarrow>
          if path \<noteq> [] \<and> snd (main a e) = Completed then [''Saved to '' @ path] else [])"
proof -
  note run = main_success [OF assms]
  have "snd (main a e) = snd (plot e a freqs (time_sec ts (hd ts)) rs)"
    by (simp add: run after_def)
  then show ?thesis
    by (simp add: run after_def stdout_of_append stdout_of_plot split: option.splits)
qed

theorem summary_lines_witness:
  "stdout_of (fst (main (sample_args (Some ''out.png'')) (env_with sample_csv))) =
     [''Reading spectrum.csv...'', ''Loaded 2 frames, 3 frequency bins'',
      ''Frequency range: 1.000 - 3.000 MHz'', ''Duration: 1.00 seconds'',
      ''Saved to out.png'']
   \<and> stdout_of (fst (main (sample_args (Some ''out.png'')) (env_savefig_fails sample_csv))) =
     [''Reading spectrum.csv...'', ''Loaded 2 frames, 3 frequency bins'',
      ''Frequency range: 1.000 - 3.000 MHz'', ''Duration: 1.00 seconds'']"
proof -
  have c: "snd (main (sample_args (Some ''out.png'')) (env_with sample_csv)) = Completed"
    "snd (main (sample_args (Some ''out.png'')) (env_savefig_fails sample_csv)) \<noteq> Completed"
    by (simp_all add: sample_main sample_main_savefig_fails)
  show ?thesis
    using summary_lines [OF sample_env(1) sample_env(2) sample_parsed(1) sample_nonempty(1)
        sample_parsed(2) sample_nonempty(2) sample_rectangular sample_int64,
        of "sample_args (Some ''out.png'')"]
      summary_lines [OF savefig_fails_env(1) savefig_fails_env(2) sample_parsed(1)
        sample_nonempty(1) sample_parsed(2) sample_nonempty(2) sample_rectangular
        sample_int64, of "sample_args (Some ''out.png'')"]
    by (simp add: c sample_time sample_lines)
qed

text \<open>
  The claim as it is written fails for the header \<open>t,2.0,1.0\<close>: the line reports
  2.000 and 1.000, the first and the last frequency, and not the minimum and the maximum.
\<close>

theorem frequency_range_counterexample:
  "parse_header (fst (read_csv falling_csv)) = Inr [F64 False 2, F64 False 1]
   \<and> stdout_of (fst (main (sample_args None) (env_with falling_csv))) =
       [''Reading spectrum.csv...'', ''Loaded 1 frames, 2 frequency bins'',
        ''Frequency range: 2.000 - 1.000 MHz'', ''Duration: 0.00 seconds'']
   \<and> spec_frequency_range [F64 False 2, F64 False 1] = ''Frequency range: 1.000 - 2.000 MHz''
   \<and> spec_frequency_range [F64 False 2, F64 False 1]
       \<notin> set (stdout_of (fst (main (sample_args None) (env_with falling_csv))))"
proof -
  have ne: "[F64 False 2, F64 False 1] \<noteq> []" "[[F64 True 50, F64 True 60]] \<noteq> []"
    by simp_all
  have "stdout_of (fst (main (sample_args None) (env_with falling_csv))) =
       [''Reading spectrum.csv...'', ''Loaded 1 frames, 2 frequency bins'',
        ''Frequency range: 2.000 - 1.000 MHz'', ''Duration: 0.00 seconds'']"
    using main_success [OF sample_env(1) sample_env(2) falling_parsed(1) ne(1)
        falling_parsed(2) ne(2) falling_parsed(3) falling_parsed(4), of "sample_args None"]
    by (simp add: falling_lines sample_lines after_def stdout_of_append stdout_of_plot)
  then show ?thesis
    using falling_parsed(1) by (simp add: falling_lines)
qed

section \<open>The extent of the image\<close>



section \<open>The run without matplotlib\<close>

text \<open>
  Claim C5. If \<open>import matplotlib.pyplot\<close> fails, the run prints the error to
  standard error and ends with \<open>sys.exit(1)\<close>; this is all it does: nothing is printed
  to standard output and \<open>open\<close> is never called, whatever the arguments and the files
  are.
\<close>

theorem missing_matplotlib_exits_before_open:
  assumes "\<not> mpl_available e"
  shows "main a e =
           ([Stderr ''Error: matplotlib not installed. Install with: pip install matplotlib''],
            Sys_exit 1)
         \<and> exit_status (snd (main a e)) = Some 1
         \<and> Open_file p \<notin> set (fst (main a e))"
  using assms by (simp add: main_def exit_status_def)

theorem missing_matplotlib_exits_before_open_witness:
  "main \<lparr>csvfile = ''spectrum.csv'', output_path = None, cmap = ''viridis'',
          vmin = Py_int (- 80), vmax = Py_int (- 30)\<rparr>
        \<lparr>mpl_available = False, files = (\<lambda>p. Some ''t,1.0''),
          read_error = (\<lambda>p. OSError), mpl_raises = (\<lambda>ev. None)\<rparr> =
     ([Stderr ''Error: matplotlib not installed. Install with: pip install matplotlib''],
      Sys_exit 1)"
  using missing_matplotlib_exits_before_open
    [of "\<lparr>mpl_available = False, files = (\<lambda>p. Some ''t,1.0''),
          read_error = (\<lambda>p. OSError), mpl_raises = (\<lambda>ev. None)\<rparr>"]
  by simp

end
